theory Spec2Isabelle
  imports Complex_Main
begin

section \<open>JavaScript values handled by the client\<close>

text \<open>
  The client of \<^verbatim>\<open>frontend/src/App.js\<close> is a React component. Its state holds values
  that come from the browser (form events, \<^verbatim>\<open>localStorage\<close>, HTTP responses), so the
  model starts with the JavaScript values those sources can produce.

  A number is an IEEE double. A finite double is represented by the rational it
  denotes (the two zeros are one value: the code modelled here only tests them for
  truthiness and prints them, which agree on both); the three other values are
  constructors of their own.
\<close>

datatype number = Fin rat | PosInf | NegInf | NaN

text \<open>
  The values \<^verbatim>\<open>JSON.parse\<close> and \<^verbatim>\<open>response.json()\<close> return. An object is the list of
  its own properties; every other property of such a value is inherited from the
  standard prototypes.
\<close>

datatype json =
    JNull
  | JBool bool
  | JNum number
  | JStr string
  | JArr "json list"
  | JObj "(string \<times> json) list"

text \<open>
  Exceptions are values. \<open>Error m\<close> is an error object whose \<^verbatim>\<open>message\<close> is \<open>m\<close>
  (\<^verbatim>\<open>new Error(m)\<close>, or the rejection of a browser promise); the other constructors
  are the exceptions the engine itself raises on the paths of this client.
\<close>

datatype js_error =
    Error string
  | TypeError_not_primitive
  | TypeError_property_of_null string
  | SyntaxError_JSON

text \<open>
  What the browser supplies and the repository does not define: the JSON functions,
  \<^verbatim>\<open>parseFloat\<close>, the printing of a number, and the message text of the engine's
  own exceptions. Every definition below takes them as the parameter \<open>P\<close>.
\<close>

record platform =
  JSON_parse :: "string \<Rightarrow> json option"
  JSON_stringify :: "json \<Rightarrow> string"
  parseFloat :: "string \<Rightarrow> number"
  Number_toString :: "number \<Rightarrow> string"
  engine_message :: "js_error \<Rightarrow> string"

fun message :: "platform \<Rightarrow> js_error \<Rightarrow> string" where
  "message P (Error m) = m"
| "message P e = engine_message P e"

text \<open>Truthiness, as \<^verbatim>\<open>if (v)\<close>, \<^verbatim>\<open>!v\<close> and \<^verbatim>\<open>a && b\<close> test it.\<close>

fun truthy :: "json \<Rightarrow> bool" where
  "truthy JNull = False"
| "truthy (JBool b) = b"
| "truthy (JNum n) = (n \<noteq> NaN \<and> n \<noteq> Fin 0)"
| "truthy (JStr s) = (s \<noteq> [])"
| "truthy (JArr xs) = True"
| "truthy (JObj ps) = True"

text \<open>
  Reading a property \<^verbatim>\<open>v.k\<close> for the names this client reads (\<^verbatim>\<open>method\<close>,
  \<^verbatim>\<open>strength\<close>, \<^verbatim>\<open>error\<close>), none of which a standard prototype defines: on \<^verbatim>\<open>null\<close>
  it raises a TypeError, on an object it is the own property or \<^verbatim>\<open>undefined\<close>
  (\<open>None\<close>), on every other value it is \<^verbatim>\<open>undefined\<close>.
\<close>

fun get_prop :: "json \<Rightarrow> string \<Rightarrow> js_error + json option" where
  "get_prop JNull k = Inl (TypeError_property_of_null k)"
| "get_prop (JObj ps) k = Inr (map_of ps k)"
| "get_prop v k = Inr None"

fun join_commas :: "string list \<Rightarrow> string" where
  "join_commas [] = []"
| "join_commas [x] = x"
| "join_commas (x # y # ys) = x @ '','' @ join_commas (y # ys)"

fun collect :: "('e + 'a) list \<Rightarrow> 'e + 'a list" where
  "collect [] = Inr []"
| "collect (Inl e # rs) = Inl e"
| "collect (Inr x # rs) = (case collect rs of Inl e \<Rightarrow> Inl e | Inr xs \<Rightarrow> Inr (x # xs))"

text \<open>
  The conversion to a string that \<^verbatim>\<open>FormData.append\<close>, \<^verbatim>\<open>new Error\<close> and a template
  literal apply. An array joins its elements with commas, \<^verbatim>\<open>null\<close> elements printing
  as the empty string. A parsed object prints as \<^verbatim>\<open>[object Object]\<close> unless it has an
  own property \<^verbatim>\<open>toString\<close>: that property is never callable, and neither it nor
  \<^verbatim>\<open>valueOf\<close> then yields a primitive, so the conversion raises a TypeError.
\<close>

fun ToString :: "platform \<Rightarrow> json \<Rightarrow> js_error + string" where
  "ToString P JNull = Inr ''null''"
| "ToString P (JBool b) = Inr (if b then ''true'' else ''false'')"
| "ToString P (JNum n) = Inr (Number_toString P n)"
| "ToString P (JStr s) = Inr s"
| "ToString P (JArr xs) =
     (case collect (map (\<lambda>x. if x = JNull then Inr [] else ToString P x) xs) of
        Inl e \<Rightarrow> Inl e
      | Inr ss \<Rightarrow> Inr (join_commas ss))"
| "ToString P (JObj ps) =
     (if ''toString'' \<in> fst ` set ps then Inl TypeError_not_primitive
      else Inr ''[object Object]'')"

text \<open>The decimal digits of an HTTP status code, as a template literal prints it.\<close>

fun show_nat :: "nat \<Rightarrow> string" where
  "show_nat n =
     (if n < 10 then [''0123456789'' ! n]
      else show_nat (n div 10) @ [''0123456789'' ! (n mod 10)])"

declare show_nat.simps [simp del]

section \<open>The component's state and what its handlers do\<close>

datatype js_file = File string

text \<open>
  An object URL, as \<^verbatim>\<open>URL.createObjectURL\<close> returns it: the string \<^verbatim>\<open>blob:\<close> followed
  by an identifier, so never the empty string; \<^verbatim>\<open>if (url)\<close> tests it against
  \<^verbatim>\<open>null\<close> only.
\<close>

datatype object_url = BlobURL string

record state =
  selectedFile :: "js_file option"
  originalPreviewUrl :: "object_url option"
  denoisedPreviewUrl :: "object_url option"
  "method" :: json
  strength :: number
  isProcessing :: bool
  statusMessage :: string

definition init_state :: state where
  "init_state =
     \<lparr>selectedFile = None, originalPreviewUrl = None, denoisedPreviewUrl = None,
      method = JStr ''cdae'', strength = Fin (1 / 2), isProcessing = False,
      statusMessage = ''''\<rparr>"

definition API_URL :: string where
  "API_URL = ''https://image-denoiser-2f3r.onrender.com/api/denoise''"

definition STORAGE_KEY :: string where
  "STORAGE_KEY = ''image-denoiser-settings-v1''"

datatype form_value = FileField js_file | TextField string

record request =
  req_url :: string
  req_method :: string
  req_body :: "(string \<times> form_value) list"

text \<open>
  A handler reads the state of the render it was created in and calls state setters
  and browser functions. Its model is the list of those calls, in program order.
\<close>

datatype action =
    SetSelectedFile "js_file option"
  | SetOriginalPreviewUrl "object_url option"
  | SetDenoisedPreviewUrl "object_url option"
  | SetMethod json
  | SetStrength number
  | SetIsProcessing bool
  | SetStatusMessage string
  | RevokeObjectURL object_url
  | StorageSetItem string string
  | Fetch request
  | ConsoleWarn js_error
  | ConsoleError js_error
  | Download object_url string

fun set_state :: "action \<Rightarrow> state \<Rightarrow> state" where
  "set_state (SetSelectedFile v) s = s\<lparr>selectedFile := v\<rparr>"
| "set_state (SetOriginalPreviewUrl v) s = s\<lparr>originalPreviewUrl := v\<rparr>"
| "set_state (SetDenoisedPreviewUrl v) s = s\<lparr>denoisedPreviewUrl := v\<rparr>"
| "set_state (SetMethod v) s = s\<lparr>method := v\<rparr>"
| "set_state (SetStrength v) s = s\<lparr>strength := v\<rparr>"
| "set_state (SetIsProcessing v) s = s\<lparr>isProcessing := v\<rparr>"
| "set_state (SetStatusMessage v) s = s\<lparr>statusMessage := v\<rparr>"
| "set_state a s = s"

definition apply_actions :: "action list \<Rightarrow> state \<Rightarrow> state" where
  "apply_actions acts s = foldl (\<lambda>t a. set_state a t) s acts"

text \<open>\<^verbatim>\<open>if (url) { URL.revokeObjectURL(url); }\<close>\<close>

fun revoke_if :: "object_url option \<Rightarrow> action list" where
  "revoke_if None = []"
| "revoke_if (Some u) = [RevokeObjectURL u]"

text \<open>
  \<^verbatim>\<open>handleFileChange\<close>: \<open>f\<close> is \<^verbatim>\<open>event.target.files[0]\<close> (\<open>None\<close> when the list is
  empty) and \<open>u\<close> is the URL that \<^verbatim>\<open>URL.createObjectURL(file)\<close> returns.
\<close>

definition handleFileChange :: "state \<Rightarrow> js_file option \<Rightarrow> object_url \<Rightarrow> action list" where
  "handleFileChange s f u =
     (case f of
        None \<Rightarrow> [SetSelectedFile None, SetOriginalPreviewUrl None]
      | Some fl \<Rightarrow>
          [SetSelectedFile (Some fl), SetStatusMessage ''''] @
          revoke_if (originalPreviewUrl s) @
          [SetOriginalPreviewUrl (Some u)] @
          revoke_if (denoisedPreviewUrl s) @
          [SetDenoisedPreviewUrl None])"

definition handleMethodChange :: "string \<Rightarrow> action list" where
  "handleMethodChange v = [SetMethod (JStr v)]"

definition handleStrengthChange :: "platform \<Rightarrow> string \<Rightarrow> action list" where
  "handleStrengthChange P v = [SetStrength (parseFloat P v)]"

definition handleDownload :: "state \<Rightarrow> action list" where
  "handleDownload s =
     (case denoisedPreviewUrl s of None \<Rightarrow> [] | Some u \<Rightarrow> [Download u ''denoised.png''])"

definition handleReset :: "state \<Rightarrow> action list" where
  "handleReset s =
     revoke_if (originalPreviewUrl s) @
     revoke_if (denoisedPreviewUrl s) @
     [SetSelectedFile None, SetOriginalPreviewUrl None, SetDenoisedPreviewUrl None,
      SetStatusMessage '''']"

section \<open>The asynchronous handler \<^verbatim>\<open>handleDenoise\<close>\<close>

text \<open>
  \<^verbatim>\<open>handleDenoise\<close> is an \<^verbatim>\<open>async\<close> function: it runs until an \<^verbatim>\<open>await\<close>, and is
  resumed when the awaited promise settles. Each stretch between two suspension
  points is a segment: the calls it makes, and how it ends (the function returned,
  an exception left it, or it is suspended at an \<^verbatim>\<open>await\<close>).
\<close>

datatype pending = AwaitFetch | AwaitJson nat | AwaitBlob

datatype completion = Returned | Thrown js_error | Awaiting pending

type_synonym segment = "action list \<times> completion"

text \<open>
  The \<^verbatim>\<open>try { ... } catch (error) { ... } finally { ... }\<close> of lines 103 to 136 around
  a segment of its body: a suspended body stays inside the \<^verbatim>\<open>try\<close>; an exception
  runs the \<^verbatim>\<open>catch\<close> block and then the \<^verbatim>\<open>finally\<close> block; a normal end runs the
  \<^verbatim>\<open>finally\<close> block.
\<close>

definition in_try :: "platform \<Rightarrow> segment \<Rightarrow> segment" where
  "in_try P seg =
     (case seg of
        (acts, Awaiting p) \<Rightarrow> (acts, Awaiting p)
      | (acts, Thrown error) \<Rightarrow>
          (acts @ [ConsoleError error,
                   SetStatusMessage (''Error: '' @ message P error),
                   SetIsProcessing False], Returned)
      | (acts, Returned) \<Rightarrow> (acts @ [SetIsProcessing False], Returned))"

text \<open>
  Lines 104 to 107. \<^verbatim>\<open>FormData.append\<close> takes a file as it is and converts any other
  value to a string, which can raise.
\<close>

definition formData ::
    "platform \<Rightarrow> js_file \<Rightarrow> json \<Rightarrow> number \<Rightarrow> js_error + (string \<times> form_value) list" where
  "formData P fl m st =
     (case ToString P m of
        Inl e \<Rightarrow> Inl e
      | Inr ms \<Rightarrow>
          Inr [(''file'', FileField fl), (''method'', TextField ms),
               (''strength'', TextField (Number_toString P st))])"

text \<open>The first segment: from the click to \<^verbatim>\<open>await fetch(...)\<close>.\<close>

definition handleDenoise :: "platform \<Rightarrow> state \<Rightarrow> segment" where
  "handleDenoise P s =
     (case selectedFile s of
        None \<Rightarrow> ([SetStatusMessage ''Please upload an image first.''], Returned)
      | Some fl \<Rightarrow>
          (let before =
                 [SetIsProcessing True, SetStatusMessage ''Processing...''] @
                 (case denoisedPreviewUrl s of
                    None \<Rightarrow> []
                  | Some u \<Rightarrow> [RevokeObjectURL u, SetDenoisedPreviewUrl None]);
               body =
                 in_try P
                   (case formData P fl (method s) (strength s) of
                      Inl e \<Rightarrow> ([], Thrown e)
                    | Inr fd \<Rightarrow>
                        ([Fetch \<lparr>req_url = API_URL, req_method = ''POST'', req_body = fd\<rparr>],
                         Awaiting AwaitFetch))
           in (before @ fst body, snd body)))"

text \<open>
  The promise of \<^verbatim>\<open>fetch\<close> settles: it rejects with an error, or resolves with a
  response, of which the handler reads the status. \<^verbatim>\<open>response.ok\<close> is true for the
  statuses 200 to 299.
\<close>

datatype fetch_outcome = FetchRejected js_error | FetchResponse nat

definition response_ok :: "nat \<Rightarrow> bool" where
  "response_ok status = (200 \<le> status \<and> status \<le> 299)"

definition handleDenoise_fetched :: "platform \<Rightarrow> fetch_outcome \<Rightarrow> segment" where
  "handleDenoise_fetched P outcome =
     in_try P
       (case outcome of
          FetchRejected e \<Rightarrow> ([], Thrown e)
        | FetchResponse status \<Rightarrow>
            if \<not> response_ok status then ([], Awaiting (AwaitJson status))
            else ([], Awaiting AwaitBlob))"

text \<open>
  Lines 115 to 123. \<open>body\<close> is what \<^verbatim>\<open>await response.json()\<close> gives: \<open>None\<close> when the
  promise rejects (the inner \<^verbatim>\<open>catch\<close> ignores it), the parsed value otherwise.
  \<^verbatim>\<open>data && data.error\<close> reads the property of a truthy value only.
\<close>

definition errorMsg :: "nat \<Rightarrow> json option \<Rightarrow> json" where
  "errorMsg status body =
     (let fallback = JStr (''Server error: '' @ show_nat status) in
      case body of
        None \<Rightarrow> fallback
      | Some data \<Rightarrow>
          if truthy data then
            (case get_prop data ''error'' of
               Inl e \<Rightarrow> fallback
             | Inr None \<Rightarrow> fallback
             | Inr (Some v) \<Rightarrow> if truthy v then v else fallback)
          else fallback)"

text \<open>
  \<^verbatim>\<open>throw new Error(errorMsg)\<close>: the constructor converts its argument to a string;
  when the conversion raises, that exception is the one thrown.
\<close>

definition new_Error :: "platform \<Rightarrow> json \<Rightarrow> js_error" where
  "new_Error P v = (case ToString P v of Inl e \<Rightarrow> e | Inr m \<Rightarrow> Error m)"

definition handleDenoise_json :: "platform \<Rightarrow> nat \<Rightarrow> json option \<Rightarrow> segment" where
  "handleDenoise_json P status body =
     in_try P ([], Thrown (new_Error P (errorMsg status body)))"

text \<open>
  Lines 127 to 130. \<^verbatim>\<open>await response.blob()\<close> rejects, or resolves with a blob for
  which \<^verbatim>\<open>URL.createObjectURL\<close> returns the given URL.
\<close>

datatype blob_outcome = BlobRejected js_error | BlobResolved object_url

definition handleDenoise_blob :: "platform \<Rightarrow> blob_outcome \<Rightarrow> segment" where
  "handleDenoise_blob P outcome =
     in_try P
       (case outcome of
          BlobRejected e \<Rightarrow> ([], Thrown e)
        | BlobResolved u \<Rightarrow>
            ([SetDenoisedPreviewUrl (Some u), SetStatusMessage ''Denoising completed.''],
             Returned))"

section \<open>The effects\<close>

text \<open>
  The load effect (lines 20 to 32), run once after the first render, on the content of
  \<^verbatim>\<open>localStorage\<close>: first the body of its \<^verbatim>\<open>try\<close>, then the whole effect.
\<close>

definition loadSettings_body :: "platform \<Rightarrow> (string \<rightharpoonup> string) \<Rightarrow> segment" where
  "loadSettings_body P st =
     (case st STORAGE_KEY of
        None \<Rightarrow> ([], Returned)
      | Some raw \<Rightarrow>
          if raw = [] then ([], Returned)
          else
            (case JSON_parse P raw of
               None \<Rightarrow> ([], Thrown SyntaxError_JSON)
             | Some settings \<Rightarrow>
                 (case get_prop settings ''method'' of
                    Inl e \<Rightarrow> ([], Thrown e)
                  | Inr m \<Rightarrow>
                      (let a1 = (case m of
                                   None \<Rightarrow> []
                                 | Some v \<Rightarrow> if truthy v then [SetMethod v] else [])
                       in case get_prop settings ''strength'' of
                            Inl e \<Rightarrow> (a1, Thrown e)
                          | Inr (Some (JNum n)) \<Rightarrow> (a1 @ [SetStrength n], Returned)
                          | Inr other \<Rightarrow> (a1, Returned)))))"

definition loadSettings :: "platform \<Rightarrow> (string \<rightharpoonup> string) \<Rightarrow> segment" where
  "loadSettings P st =
     (case loadSettings_body P st of
        (acts, Thrown err) \<Rightarrow> (acts @ [ConsoleWarn err], Returned)
      | (acts, c) \<Rightarrow> (acts, c))"

text \<open>The save effect (lines 35 to 41), with the state of the render it runs after.\<close>

definition settings :: "state \<Rightarrow> json" where
  "settings s = JObj [(''method'', method s), (''strength'', JNum (strength s))]"

definition saveSettings :: "platform \<Rightarrow> state \<Rightarrow> action list" where
  "saveSettings P s = [StorageSetItem STORAGE_KEY (JSON_stringify P (settings s))]"

text \<open>
  After a render React runs the save effect when one of its dependencies
  \<^verbatim>\<open>[method, strength]\<close> differs from the previous render.
\<close>

definition render_effects :: "platform \<Rightarrow> state \<Rightarrow> state \<Rightarrow> action list" where
  "render_effects P old new =
     (if method new \<noteq> method old \<or> strength new \<noteq> strength old
      then saveSettings P new else [])"

section \<open>The page as a transition system\<close>

text \<open>
  The page: the component's state, the content of \<^verbatim>\<open>localStorage\<close>, the suspended
  invocations of \<^verbatim>\<open>handleDenoise\<close> (one entry for each request that has not completed),
  and the requests sent so far.
\<close>

record world =
  ui :: state
  storage :: "string \<rightharpoonup> string"
  inflight :: "pending list"
  sent :: "request list"

text \<open>
  The effect of one call on the page. \<^verbatim>\<open>localStorage.setItem\<close> stores the text (a
  storage that refuses the write is not modelled); \<^verbatim>\<open>fetch\<close> sends the request; a state
  setter sets its variable; the other calls leave the page as it is.
\<close>

fun perform :: "world \<Rightarrow> action \<Rightarrow> world" where
  "perform w (StorageSetItem k v) = w\<lparr>storage := (storage w)(k \<mapsto> v)\<rparr>"
| "perform w (Fetch r) = w\<lparr>sent := sent w @ [r]\<rparr>"
| "perform w a = w\<lparr>ui := set_state a (ui w)\<rparr>"

text \<open>
  One event: the handler's calls take effect, React renders the new state, and the
  effects whose dependencies changed run.
\<close>

definition commit :: "platform \<Rightarrow> world \<Rightarrow> action list \<Rightarrow> world" where
  "commit P w acts =
     (let w' = foldl perform w acts
      in foldl perform w' (render_effects P (ui w) (ui w')))"

text \<open>
  Mounting: the first render shows the initial state; then the load effect and the save
  effect run in this order, both on that render's values; then the page renders what
  the load effect set.
\<close>

definition mount :: "platform \<Rightarrow> (string \<rightharpoonup> string) \<Rightarrow> world" where
  "mount P st =
     commit P \<lparr>ui = init_state, storage = st, inflight = [], sent = []\<rparr>
       (fst (loadSettings P st) @ saveSettings P init_state)"

text \<open>
  A segment of \<^verbatim>\<open>handleDenoise\<close> ran in the place \<open>pre | post\<close> of the suspended
  invocations: it is suspended again, or gone.
\<close>

definition resume :: "platform \<Rightarrow> world \<Rightarrow> pending list \<Rightarrow> pending list \<Rightarrow> segment \<Rightarrow> world" where
  "resume P w pre post seg =
     commit P
       (w\<lparr>inflight := pre @ (case snd seg of Awaiting p \<Rightarrow> [p] | _ \<Rightarrow> []) @ post\<rparr>)
       (fst seg)"

text \<open>
  What the rendered controls allow: the \<^verbatim>\<open>select\<close> has four options, the range input
  has \<^verbatim>\<open>min="0" max="1"\<close>, and the Denoise button has \<^verbatim>\<open>disabled={isProcessing}\<close>.
\<close>

definition method_options :: "string list" where
  "method_options = [''cdae'', ''mean'', ''median'', ''wavelet'']"

fun in_unit :: "number \<Rightarrow> bool" where
  "in_unit (Fin q) = (0 \<le> q \<and> q \<le> 1)"
| "in_unit n = False"

definition slider_value :: "platform \<Rightarrow> string \<Rightarrow> bool" where
  "slider_value P v = in_unit (parseFloat P v)"

definition denoise_disabled :: "state \<Rightarrow> bool" where
  "denoise_disabled s = isProcessing s"

text \<open>
  The steps of the page. A user event runs its handler on the state that is rendered;
  JavaScript runs each handler segment to its end before the next event, and React
  renders between two events, so a step is \<open>commit\<close> of a whole segment. The other
  steps are the settling of a promise that a suspended \<^verbatim>\<open>handleDenoise\<close> awaits, with
  any outcome. A click on Denoise is a step only while the button is not disabled;
  \<^verbatim>\<open>handleDenoise\<close> itself does not test \<^verbatim>\<open>isProcessing\<close>.
\<close>

inductive step :: "platform \<Rightarrow> world \<Rightarrow> world \<Rightarrow> bool" for P :: platform where
  file_change: "step P w (commit P w (handleFileChange (ui w) f u))"
| method_change:
    "v \<in> set method_options \<Longrightarrow> step P w (commit P w (handleMethodChange v))"
| strength_change:
    "slider_value P v \<Longrightarrow> step P w (commit P w (handleStrengthChange P v))"
| denoise_click:
    "\<not> denoise_disabled (ui w) \<Longrightarrow>
     step P w (resume P w (inflight w) [] (handleDenoise P (ui w)))"
| reset_click: "step P w (commit P w (handleReset (ui w)))"
| download_click: "step P w (commit P w (handleDownload (ui w)))"
| fetch_settled:
    "inflight w = pre @ AwaitFetch # post \<Longrightarrow>
     step P w (resume P w pre post (handleDenoise_fetched P outcome))"
| json_settled:
    "inflight w = pre @ AwaitJson status # post \<Longrightarrow>
     step P w (resume P w pre post (handleDenoise_json P status body))"
| blob_settled:
    "inflight w = pre @ AwaitBlob # post \<Longrightarrow>
     step P w (resume P w pre post (handleDenoise_blob P outcome))"

inductive reachable :: "platform \<Rightarrow> (string \<rightharpoonup> string) \<Rightarrow> world \<Rightarrow> bool"
  for P :: platform and st :: "string \<rightharpoonup> string" where
  mounted: "reachable P st (mount P st)"
| after_step: "reachable P st w \<Longrightarrow> step P w w' \<Longrightarrow> reachable P st w'"

section \<open>Notions used by the properties\<close>

text \<open>The requests and the storage writes among a handler's calls.\<close>

fun requests :: "action list \<Rightarrow> request list" where
  "requests [] = []"
| "requests (Fetch r # acts) = r # requests acts"
| "requests (a # acts) = requests acts"

fun writes :: "action list \<Rightarrow> (string \<times> string) list" where
  "writes [] = []"
| "writes (StorageSetItem k v # acts) = (k, v) # writes acts"
| "writes (a # acts) = writes acts"


text \<open>
  The stored settings, as the load effect reads them: the property \<open>k\<close> of the value
  parsed from the text under the storage key, when there is a non-empty text, it parses,
  and the value has that property. \<open>loaded_method\<close> and \<open>loaded_strength\<close> are the
  values of the two state variables after the load effect.
\<close>

definition stored_setting :: "platform \<Rightarrow> (string \<rightharpoonup> string) \<Rightarrow> string \<Rightarrow> json option" where
  "stored_setting P st k =
     (case st STORAGE_KEY of
        None \<Rightarrow> None
      | Some raw \<Rightarrow>
          if raw = [] then None
          else (case JSON_parse P raw of
                  None \<Rightarrow> None
                | Some v \<Rightarrow> (case get_prop v k of Inl e \<Rightarrow> None | Inr r \<Rightarrow> r)))"

definition loaded_method :: "platform \<Rightarrow> (string \<rightharpoonup> string) \<Rightarrow> json \<Rightarrow> json" where
  "loaded_method P st m =
     (case stored_setting P st ''method'' of
        None \<Rightarrow> m
      | Some v \<Rightarrow> if truthy v then v else m)"

definition loaded_strength :: "platform \<Rightarrow> (string \<rightharpoonup> string) \<Rightarrow> number \<Rightarrow> number" where
  "loaded_strength P st x =
     (case stored_setting P st ''strength'' of
        Some (JNum n) \<Rightarrow> n
      | _ \<Rightarrow> x)"

text \<open>
  The storage holds the serialization of the current settings under the storage key, and
  its initial content \<open>st\<close> under every other key.
\<close>

definition persisted :: "platform \<Rightarrow> (string \<rightharpoonup> string) \<Rightarrow> world \<Rightarrow> bool" where
  "persisted P st w =
     (storage w = st(STORAGE_KEY \<mapsto> JSON_stringify P (settings (ui w))))"

section \<open>A browser for the examples\<close>

text \<open>
  The examples below run the client on a concrete platform. Its functions agree with a
  browser's on the inputs the examples use (the five stored texts, the numbers 0.25,
  0.5 and 5, settings objects with a string method); elsewhere they are placeholders.
  The engine's messages are those of V8.
\<close>

definition example_number :: "number \<Rightarrow> string" where
  "example_number n =
     (if n = Fin 5 then ''5'' else if n = Fin (1 / 2) then ''0.5''
      else if n = Fin (1 / 4) then ''0.25'' else ''NaN'')"

definition example_parse :: "string \<Rightarrow> json option" where
  \<open>example_parse =
     map_of
       [(''{"method":"median","strength":0.25}'',
           JObj [(''method'', JStr ''median''), (''strength'', JNum (Fin (1 / 4)))]),
        (''{"method":"cdae","strength":5}'',
           JObj [(''method'', JStr ''cdae''), (''strength'', JNum (Fin 5))]),
        (''{"method":"bogus","strength":0.5}'',
           JObj [(''method'', JStr ''bogus''), (''strength'', JNum (Fin (1 / 2)))]),
        (''{"method":0,"strength":"high"}'',
           JObj [(''method'', JNum (Fin 0)), (''strength'', JStr ''high'')]),
        (''{"method":"","strength":1}'',
           JObj [(''method'', JStr []), (''strength'', JNum (Fin 1))])]\<close>

definition example_stringify :: "json \<Rightarrow> string" where
  \<open>example_stringify v =
     (case v of
        JObj [(k1, JStr m), (k2, JNum n)] \<Rightarrow>
          ''{"'' @ k1 @ ''":"'' @ m @ ''","'' @ k2 @ ''":'' @ example_number n @ ''}''
      | _ \<Rightarrow> ''null'')\<close>

definition example_parseFloat :: "string \<Rightarrow> number" where
  "example_parseFloat =
     (\<lambda>v. case map_of [(''0.25'', Fin (1 / 4)), (''0.5'', Fin (1 / 2)), (''5'', Fin 5)] v of
            None \<Rightarrow> NaN | Some n \<Rightarrow> n)"

fun example_message :: "js_error \<Rightarrow> string" where
  "example_message (Error m) = m"
| "example_message TypeError_not_primitive = ''Cannot convert object to primitive value''"
| "example_message (TypeError_property_of_null k) =
     ''Cannot read properties of null (reading '' @ k @ '')''"
| "example_message SyntaxError_JSON = ''Unexpected token''"

definition browser :: platform where
  "browser =
     \<lparr>JSON_parse = example_parse, JSON_stringify = example_stringify,
      parseFloat = example_parseFloat, Number_toString = example_number,
      engine_message = example_message\<rparr>"

text \<open>
  Three pages for the examples: one showing a finished denoising, one just after a file
  was chosen on a fresh page, and that one after a click on Denoise.
\<close>

definition example_loaded :: world where
  \<open>example_loaded =
     \<lparr>ui = \<lparr>selectedFile = Some (File ''photo.png''),
            originalPreviewUrl = Some (BlobURL ''a''),
            denoisedPreviewUrl = Some (BlobURL ''b''),
            method = JStr ''median'', strength = Fin (1 / 4), isProcessing = False,
            statusMessage = ''Denoising completed.''\<rparr>,
      storage = [STORAGE_KEY \<mapsto> ''{"method":"median","strength":0.25}''],
      inflight = [], sent = []\<rparr>\<close>

definition example_selected :: "(string \<rightharpoonup> string) \<Rightarrow> world" where
  "example_selected st =
     commit browser (mount browser st)
       (handleFileChange (ui (mount browser st)) (Some (File ''photo.png'')) (BlobURL ''a''))"

definition example_requested :: "(string \<rightharpoonup> string) \<Rightarrow> world" where
  "example_requested st =
     resume browser (example_selected st) (inflight (example_selected st)) []
       (handleDenoise browser (ui (example_selected st)))"




section \<open>Basic facts about the handlers\<close>


lemma requests_append: "requests (xs @ ys) = requests xs @ requests ys"
  by (induction xs rule: requests.induct) simp_all

lemma writes_append: "writes (xs @ ys) = writes xs @ writes ys"
  by (induction xs rule: writes.induct) simp_all

lemma apply_actions_append:
  "apply_actions (xs @ ys) s = apply_actions ys (apply_actions xs s)"
  by (simp add: apply_actions_def)

lemma apply_actions_Nil: "apply_actions [] s = s"
  by (simp add: apply_actions_def)

lemma apply_actions_Cons: "apply_actions (a # acts) s = apply_actions acts (set_state a s)"
  by (simp add: apply_actions_def)

lemma ui_foldl_perform: "ui (foldl perform w acts) = apply_actions acts (ui w)"
proof (induction acts arbitrary: w)
  case Nil
  show ?case by (simp add: apply_actions_Nil)
next
  case (Cons a acts)
  have "ui (perform w a) = set_state a (ui w)" by (cases a) simp_all
  with Cons show ?case by (simp add: apply_actions_Cons)
qed

lemma inflight_foldl_perform: "inflight (foldl perform w acts) = inflight w"
proof (induction acts arbitrary: w)
  case Nil
  show ?case by simp
next
  case (Cons a acts)
  have "inflight (perform w a) = inflight w" by (cases a) simp_all
  with Cons show ?case by simp
qed

lemma sent_foldl_perform: "sent (foldl perform w acts) = sent w @ requests acts"
proof (induction acts arbitrary: w)
  case Nil
  show ?case by simp
next
  case (Cons a acts)
  have "sent (perform w a) = sent w @ requests [a]" by (cases a) simp_all
  with Cons show ?case by (cases a) simp_all
qed

lemma storage_foldl_perform:
  "writes acts = [] \<Longrightarrow> storage (foldl perform w acts) = storage w"
proof (induction acts arbitrary: w)
  case Nil
  show ?case by simp
next
  case (Cons a acts)
  then have "storage (perform w a) = storage w" and "writes acts = []"
    by (cases a; simp)+
  with Cons.IH show ?case by simp
qed

lemma render_effects_plain:
  "requests (render_effects P old new) = []"
  "apply_actions (render_effects P old new) s = s"
  by (simp_all add: render_effects_def saveSettings_def apply_actions_def)

lemma ui_commit: "ui (commit P w acts) = apply_actions acts (ui w)"
  by (simp add: commit_def Let_def ui_foldl_perform render_effects_plain)

lemma inflight_commit: "inflight (commit P w acts) = inflight w"
  by (simp add: commit_def Let_def inflight_foldl_perform)

lemma sent_commit: "sent (commit P w acts) = sent w @ requests acts"
  by (simp add: commit_def Let_def sent_foldl_perform render_effects_plain)

lemma storage_commit:
  assumes "writes acts = []"
  shows "storage (commit P w acts) =
           (if method (apply_actions acts (ui w)) \<noteq> method (ui w)
               \<or> strength (apply_actions acts (ui w)) \<noteq> strength (ui w)
            then (storage w)(STORAGE_KEY \<mapsto> JSON_stringify P (settings (apply_actions acts (ui w))))
            else storage w)"
  using assms
  by (simp add: commit_def Let_def render_effects_def saveSettings_def
      ui_foldl_perform storage_foldl_perform)

lemma revoke_if_plain:
  "requests (revoke_if u) = []" "writes (revoke_if u) = []"
  "apply_actions (revoke_if u) s = s"
  by (cases u; simp add: apply_actions_def)+

lemmas plain_simps =
  requests_append writes_append apply_actions_append apply_actions_Nil apply_actions_Cons
  revoke_if_plain

lemma handleFileChange_plain:
  "requests (handleFileChange s f u) = []" "writes (handleFileChange s f u) = []"
  "isProcessing (apply_actions (handleFileChange s f u) t) = isProcessing t"
  "method (apply_actions (handleFileChange s f u) t) = method t"
  "strength (apply_actions (handleFileChange s f u) t) = strength t"
  by (cases f; simp add: handleFileChange_def plain_simps)+

lemma handleReset_plain:
  "requests (handleReset s) = []" "writes (handleReset s) = []"
  "isProcessing (apply_actions (handleReset s) t) = isProcessing t"
  "method (apply_actions (handleReset s) t) = method t"
  "strength (apply_actions (handleReset s) t) = strength t"
  by (simp_all add: handleReset_def plain_simps)

lemma handleDownload_plain:
  "requests (handleDownload s) = []" "writes (handleDownload s) = []"
  "apply_actions (handleDownload s) t = t"
  by (cases "denoisedPreviewUrl s"; simp add: handleDownload_def plain_simps)+

lemma handleMethodChange_plain:
  "requests (handleMethodChange v) = []" "writes (handleMethodChange v) = []"
  "apply_actions (handleMethodChange v) t = t\<lparr>method := JStr v\<rparr>"
  by (simp_all add: handleMethodChange_def plain_simps)

lemma handleStrengthChange_plain:
  "requests (handleStrengthChange P v) = []" "writes (handleStrengthChange P v) = []"
  "apply_actions (handleStrengthChange P v) t = t\<lparr>strength := parseFloat P v\<rparr>"
  by (simp_all add: handleStrengthChange_def plain_simps)

text \<open>What the \<^verbatim>\<open>try\<close> statement adds to a segment.\<close>

lemma in_try_cases:
  "in_try P (acts, Awaiting p) = (acts, Awaiting p)"
  "in_try P (acts, Thrown e) =
     (acts @ [ConsoleError e, SetStatusMessage (''Error: '' @ message P e),
              SetIsProcessing False], Returned)"
  "in_try P (acts, Returned) = (acts @ [SetIsProcessing False], Returned)"
  by (simp_all add: in_try_def)

lemma in_try_not_thrown: "snd (in_try P seg) \<noteq> Thrown e"
  by (cases seg; cases "snd seg"; simp add: in_try_def)

lemma handleDenoise_cases:
  "selectedFile s = None \<Longrightarrow>
     handleDenoise P s = ([SetStatusMessage ''Please upload an image first.''], Returned)"
  "selectedFile s = Some fl \<Longrightarrow> ToString P (method s) = Inl e \<Longrightarrow>
     handleDenoise P s =
       ([SetIsProcessing True, SetStatusMessage ''Processing...''] @
        (case denoisedPreviewUrl s of None \<Rightarrow> []
         | Some u \<Rightarrow> [RevokeObjectURL u, SetDenoisedPreviewUrl None]) @
        [ConsoleError e, SetStatusMessage (''Error: '' @ message P e),
         SetIsProcessing False], Returned)"
  "selectedFile s = Some fl \<Longrightarrow> ToString P (method s) = Inr m \<Longrightarrow>
     handleDenoise P s =
       ([SetIsProcessing True, SetStatusMessage ''Processing...''] @
        (case denoisedPreviewUrl s of None \<Rightarrow> []
         | Some u \<Rightarrow> [RevokeObjectURL u, SetDenoisedPreviewUrl None]) @
        [Fetch \<lparr>req_url = API_URL, req_method = ''POST'',
                req_body = [(''file'', FileField fl), (''method'', TextField m),
                            (''strength'', TextField (Number_toString P (strength s)))]\<rparr>],
        Awaiting AwaitFetch)"
  by (simp_all add: handleDenoise_def formData_def in_try_cases Let_def)

lemma handleDenoise_plain:
  "writes (fst (handleDenoise P s)) = []"
  "method (apply_actions (fst (handleDenoise P s)) t) = method t"
  "strength (apply_actions (fst (handleDenoise P s)) t) = strength t"
  by (cases "selectedFile s"; cases "ToString P (method s)"; cases "denoisedPreviewUrl s";
      simp add: handleDenoise_cases plain_simps)+



lemma handleDenoise_fetched_plain:
  "requests (fst (handleDenoise_fetched P outcome)) = []"
  "writes (fst (handleDenoise_fetched P outcome)) = []"
  "method (apply_actions (fst (handleDenoise_fetched P outcome)) t) = method t"
  "strength (apply_actions (fst (handleDenoise_fetched P outcome)) t) = strength t"
  "isProcessing (apply_actions (fst (handleDenoise_fetched P outcome)) t) =
     (if snd (handleDenoise_fetched P outcome) = Returned then False else isProcessing t)"
  "snd (handleDenoise_fetched P outcome) \<noteq> Thrown e"
  by (cases outcome; simp add: handleDenoise_fetched_def in_try_cases plain_simps)+

lemma handleDenoise_json_plain:
  "requests (fst (handleDenoise_json P status body)) = []"
  "writes (fst (handleDenoise_json P status body)) = []"
  "method (apply_actions (fst (handleDenoise_json P status body)) t) = method t"
  "strength (apply_actions (fst (handleDenoise_json P status body)) t) = strength t"
  "isProcessing (apply_actions (fst (handleDenoise_json P status body)) t) = False"
  "snd (handleDenoise_json P status body) = Returned"
  by (simp_all add: handleDenoise_json_def in_try_cases plain_simps)

lemma handleDenoise_blob_plain:
  "requests (fst (handleDenoise_blob P outcome)) = []"
  "writes (fst (handleDenoise_blob P outcome)) = []"
  "method (apply_actions (fst (handleDenoise_blob P outcome)) t) = method t"
  "strength (apply_actions (fst (handleDenoise_blob P outcome)) t) = strength t"
  "isProcessing (apply_actions (fst (handleDenoise_blob P outcome)) t) = False"
  "snd (handleDenoise_blob P outcome) = Returned"
  by (cases outcome; simp add: handleDenoise_blob_def in_try_cases plain_simps)+

lemma resume_fields:
  "ui (resume P w pre post seg) = apply_actions (fst seg) (ui w)"
  "sent (resume P w pre post seg) = sent w @ requests (fst seg)"
  "inflight (resume P w pre post seg) =
     pre @ (case snd seg of Awaiting p \<Rightarrow> [p] | _ \<Rightarrow> []) @ post"
  by (simp_all add: resume_def ui_commit sent_commit inflight_commit)




lemma loadSettings_parsed:
  assumes "st STORAGE_KEY = Some raw" and "raw \<noteq> []" and "JSON_parse P raw = Some v"
  shows "snd (loadSettings P st) = Returned
       \<and> requests (fst (loadSettings P st)) = []
       \<and> writes (fst (loadSettings P st)) = []
       \<and> apply_actions (fst (loadSettings P st)) s
           = s\<lparr>method := loaded_method P st (method s),
                strength := loaded_strength P st (strength s)\<rparr>"
proof (cases v)
  case (JObj ps)
  show ?thesis
  proof (cases "map_of ps ''strength''")
    case None
    with JObj assms show ?thesis
      by (cases "map_of ps ''method''")
         (simp_all add: loadSettings_def loadSettings_body_def stored_setting_def
            loaded_method_def loaded_strength_def plain_simps)
  next
    case (Some x)
    with JObj assms show ?thesis
      by (cases "map_of ps ''method''"; cases x)
         (simp_all add: loadSettings_def loadSettings_body_def stored_setting_def
            loaded_method_def loaded_strength_def plain_simps)
  qed
qed (use assms in \<open>simp_all add: loadSettings_def loadSettings_body_def stored_setting_def
       loaded_method_def loaded_strength_def plain_simps\<close>)

lemma loadSettings_effect:
  "snd (loadSettings P st) = Returned
   \<and> requests (fst (loadSettings P st)) = []
   \<and> writes (fst (loadSettings P st)) = []
   \<and> apply_actions (fst (loadSettings P st)) s
       = s\<lparr>method := loaded_method P st (method s),
            strength := loaded_strength P st (strength s)\<rparr>"
proof (cases "st STORAGE_KEY")
  case None
  then show ?thesis
    by (simp add: loadSettings_def loadSettings_body_def stored_setting_def
        loaded_method_def loaded_strength_def plain_simps)
next
  case (Some raw)
  show ?thesis
  proof (cases "raw = []")
    case True
    with Some show ?thesis
      by (simp add: loadSettings_def loadSettings_body_def stored_setting_def
          loaded_method_def loaded_strength_def plain_simps)
  next
    case False
    show ?thesis
    proof (cases "JSON_parse P raw")
      case None
      with Some False show ?thesis
        by (simp add: loadSettings_def loadSettings_body_def stored_setting_def
            loaded_method_def loaded_strength_def plain_simps)
    next
      case (Some v)
      with \<open>st STORAGE_KEY = Some raw\<close> False show ?thesis
        by (rule loadSettings_parsed)
    qed
  qed
qed

lemma storage_foldl_perform_writes:
  "storage (foldl perform w acts) = foldl (\<lambda>m (k, v). m(k \<mapsto> v)) (storage w) (writes acts)"
proof (induction acts arbitrary: w)
  case Nil
  show ?case by simp
next
  case (Cons a acts)
  have "storage (perform w a) = foldl (\<lambda>m (k, v). m(k \<mapsto> v)) (storage w) (writes [a])"
    by (cases a) simp_all
  with Cons show ?case by (cases a) simp_all
qed

lemma settings_cong:
  "method s = method t \<Longrightarrow> strength s = strength t \<Longrightarrow> settings s = settings t"
  by (simp add: settings_def)

lemma mount_fields:
  "ui (mount P st) =
     init_state\<lparr>method := loaded_method P st (JStr ''cdae''),
                strength := loaded_strength P st (Fin (1 / 2))\<rparr>"
  "inflight (mount P st) = []"
  "sent (mount P st) = []"
  using loadSettings_effect [of P st init_state]
  by (simp_all add: mount_def ui_commit inflight_commit sent_commit plain_simps
      saveSettings_def init_state_def)

lemma storage_mount:
  "storage (mount P st) = st(STORAGE_KEY \<mapsto> JSON_stringify P (settings (ui (mount P st))))"
proof -
  let ?s = "apply_actions (fst (loadSettings P st)) init_state"
  have ui: "apply_actions (fst (loadSettings P st) @ saveSettings P init_state) init_state = ?s"
    by (simp add: plain_simps saveSettings_def)
  have w: "writes (fst (loadSettings P st)) = []"
    using loadSettings_effect [of P st init_state] by simp
  have same: "settings ?s = settings init_state"
    if "method ?s = method init_state" "strength ?s = strength init_state"
    using that by (rule settings_cong)
  have "ui (mount P st) = ?s"
    by (simp add: mount_def ui_commit ui)
  moreover have "storage (mount P st) = st(STORAGE_KEY \<mapsto> JSON_stringify P (settings ?s))"
    using same
    by (auto simp: mount_def commit_def Let_def ui_foldl_perform storage_foldl_perform_writes
        ui w writes_append render_effects_def saveSettings_def)
  ultimately show ?thesis by simp
qed

lemma persisted_commit:
  assumes "persisted P st w" and "writes acts = []"
  shows "persisted P st (commit P w acts)"
proof -
  let ?s = "apply_actions acts (ui w)"
  have "settings ?s = settings (ui w)" if "method ?s = method (ui w)" "strength ?s = strength (ui w)"
    using that by (rule settings_cong)
  then show ?thesis
    using assms by (auto simp: persisted_def storage_commit ui_commit)
qed

lemma persisted_resume:
  assumes "persisted P st w" and "writes (fst seg) = []"
  shows "persisted P st (resume P w pre post seg)"
proof -
  have "persisted P st (w\<lparr>inflight := pre @ (case snd seg of Awaiting p \<Rightarrow> [p] | _ \<Rightarrow> []) @ post\<rparr>)"
    using assms(1) by (simp add: persisted_def)
  then show ?thesis
    unfolding resume_def using assms(2) by (rule persisted_commit)
qed

lemma persisted_step:
  assumes "persisted P st w" and "step P w w'"
  shows "persisted P st w'"
  using assms(2,1)
  by cases
     (auto intro!: persisted_commit persisted_resume
        simp: handleFileChange_plain handleReset_plain handleDownload_plain
          handleMethodChange_plain handleStrengthChange_plain handleDenoise_plain
          handleDenoise_fetched_plain handleDenoise_json_plain handleDenoise_blob_plain)

lemma reachable_persisted: "reachable P st w \<Longrightarrow> persisted P st w"
proof (induction rule: reachable.induct)
  case mounted
  show ?case by (simp add: persisted_def storage_mount)
next
  case (after_step w w')
  then show ?case by (auto intro: persisted_step)
qed




lemma example_selected_fields:
  "selectedFile (ui (example_selected st)) = Some (File ''photo.png'')"
  "method (ui (example_selected st)) = loaded_method browser st (JStr ''cdae'')"
  "strength (ui (example_selected st)) = loaded_strength browser st (Fin (1 / 2))"
  "denoisedPreviewUrl (ui (example_selected st)) = None"
  "isProcessing (ui (example_selected st)) = False"
  "inflight (example_selected st) = []"
  "sent (example_selected st) = []"
  by (simp_all add: example_selected_def ui_commit inflight_commit sent_commit mount_fields
      handleFileChange_def plain_simps init_state_def)

lemma example_requested_reachable: "reachable browser st (example_requested st)"
proof -
  have "reachable browser st (mount browser st)"
    by (rule reachable.mounted)
  moreover have "step browser (mount browser st) (example_selected st)"
    unfolding example_selected_def by (rule step.file_change)
  ultimately have "reachable browser st (example_selected st)"
    by (rule reachable.after_step)
  moreover have "step browser (example_selected st) (example_requested st)"
    unfolding example_requested_def
    by (rule step.denoise_click) (simp add: denoise_disabled_def example_selected_fields)
  ultimately show ?thesis by (rule reachable.after_step)
qed

lemma example_requested_fields:
  assumes "loaded_method browser st (JStr ''cdae'') = JStr m"
  shows "inflight (example_requested st) = [AwaitFetch]"
    and "sent (example_requested st) =
           [\<lparr>req_url = API_URL, req_method = ''POST'',
             req_body = [(''file'', FileField (File ''photo.png'')), (''method'', TextField m),
                         (''strength'',
                          TextField (example_number (loaded_strength browser st (Fin (1 / 2)))))]\<rparr>]"
    and "method (ui (example_requested st)) = JStr m"
    and "strength (ui (example_requested st)) = loaded_strength browser st (Fin (1 / 2))"
proof -
  have "ToString browser (method (ui (example_selected st))) = Inr m"
    by (simp add: example_selected_fields assms)
  with example_selected_fields(1)
  have seg: "handleDenoise browser (ui (example_selected st)) =
       ([SetIsProcessing True, SetStatusMessage ''Processing...''] @
        (case denoisedPreviewUrl (ui (example_selected st)) of None \<Rightarrow> []
         | Some u \<Rightarrow> [RevokeObjectURL u, SetDenoisedPreviewUrl None]) @
        [Fetch \<lparr>req_url = API_URL, req_method = ''POST'',
                req_body = [(''file'', FileField (File ''photo.png'')), (''method'', TextField m),
                            (''strength'',
                             TextField (Number_toString browser
                                          (strength (ui (example_selected st)))))]\<rparr>],
        Awaiting AwaitFetch)"
    by (rule handleDenoise_cases(3))
  have printer: "Number_toString browser = example_number"
    by (simp add: browser_def)
  show "inflight (example_requested st) = [AwaitFetch]"
    by (simp add: example_requested_def resume_fields seg example_selected_fields)
  show "sent (example_requested st) =
           [\<lparr>req_url = API_URL, req_method = ''POST'',
             req_body = [(''file'', FileField (File ''photo.png'')), (''method'', TextField m),
                         (''strength'',
                          TextField (example_number (loaded_strength browser st (Fin (1 / 2)))))]\<rparr>]"
    by (simp add: example_requested_def resume_fields seg example_selected_fields plain_simps
        printer)
  show "method (ui (example_requested st)) = JStr m"
    by (simp add: example_requested_def resume_fields seg example_selected_fields plain_simps
        assms)
  show "strength (ui (example_requested st)) = loaded_strength browser st (Fin (1 / 2))"
    by (simp add: example_requested_def resume_fields seg example_selected_fields plain_simps)
qed

lemma example_loaded_values:
  "loaded_method browser Map.empty m = m"
  "loaded_strength browser Map.empty x = x"
  \<open>loaded_method browser [STORAGE_KEY \<mapsto> ''{"method":"cdae","strength":5}''] m = JStr ''cdae''\<close>
  \<open>loaded_strength browser [STORAGE_KEY \<mapsto> ''{"method":"cdae","strength":5}''] x = Fin 5\<close>
  \<open>loaded_method browser [STORAGE_KEY \<mapsto> ''{"method":"bogus","strength":0.5}''] m
     = JStr ''bogus''\<close>
  \<open>loaded_strength browser [STORAGE_KEY \<mapsto> ''{"method":"bogus","strength":0.5}''] x
     = Fin (1 / 2)\<close>
  \<open>loaded_method browser [STORAGE_KEY \<mapsto> ''{"method":"median","strength":0.25}''] m
     = JStr ''median''\<close>
  \<open>loaded_strength browser [STORAGE_KEY \<mapsto> ''{"method":"median","strength":0.25}''] x
     = Fin (1 / 4)\<close>
  by (simp_all add: loaded_method_def loaded_strength_def stored_setting_def browser_def
      example_parse_def)

lemma handleDenoise_request:
  assumes "r \<in> set (requests (fst (handleDenoise P s)))"
  shows "\<exists>fl m. selectedFile s = Some fl \<and> ToString P (method s) = Inr m
           \<and> r = \<lparr>req_url = API_URL, req_method = ''POST'',
                  req_body = [(''file'', FileField fl), (''method'', TextField m),
                              (''strength'', TextField (Number_toString P (strength s)))]\<rparr>"
proof (cases "selectedFile s")
  case None
  with assms show ?thesis by (simp add: handleDenoise_cases)
next
  case (Some fl)
  show ?thesis
  proof (cases "ToString P (method s)")
    case (Inl e)
    with Some assms show ?thesis
      by (cases "denoisedPreviewUrl s") (simp_all add: handleDenoise_cases plain_simps)
  next
    case (Inr m)
    with Some assms show ?thesis
      by (cases "denoisedPreviewUrl s") (simp_all add: handleDenoise_cases plain_simps)
  qed
qed

lemma browser_fields:
  "JSON_parse browser = example_parse" "JSON_stringify browser = example_stringify"
  "parseFloat browser = example_parseFloat" "Number_toString browser = example_number"
  "engine_message browser = example_message"
  by (simp_all add: browser_def)

lemma errorMsg_cases:
  "errorMsg status body =
     (case body of
        None \<Rightarrow> JStr (''Server error: '' @ show_nat status)
      | Some data \<Rightarrow>
          (case get_prop data ''error'' of
             Inr (Some v) \<Rightarrow> if truthy v then v else JStr (''Server error: '' @ show_nat status)
           | _ \<Rightarrow> JStr (''Server error: '' @ show_nat status)))"
proof (cases body)
  case None
  then show ?thesis by (simp add: errorMsg_def Let_def)
next
  case (Some data)
  then show ?thesis
    by (cases data) (simp_all add: errorMsg_def Let_def split: option.splits)
qed

lemma errorMsg_used:
  "get_prop data ''error'' = Inr (Some v) \<Longrightarrow> truthy v \<Longrightarrow> errorMsg status (Some data) = v"
  by (simp add: errorMsg_cases)

lemma errorMsg_fallback:
  "errorMsg status None = JStr (''Server error: '' @ show_nat status)"
  "\<nexists>v. get_prop data ''error'' = Inr (Some v) \<and> truthy v \<Longrightarrow>
     errorMsg status (Some data) = JStr (''Server error: '' @ show_nat status)"
   apply (simp add: errorMsg_cases)
  apply (cases "get_prop data ''error''")
   apply (simp add: errorMsg_cases)
  subgoal for r
    by (cases r) (simp_all add: errorMsg_cases)
  done

lemma errorMsg_same:
  "get_prop d ''error'' = get_prop d' ''error'' \<Longrightarrow>
     errorMsg status (Some d) = errorMsg status (Some d')"
  by (simp add: errorMsg_cases)

lemma step_sent:
  assumes "step P w w'" and "r \<in> set (sent w')"
  shows "r \<in> set (sent w) \<or> r \<in> set (requests (fst (handleDenoise P (ui w))))"
  using assms
  by cases
     (simp_all add: sent_commit resume_fields
        handleFileChange_plain handleReset_plain handleDownload_plain
        handleMethodChange_plain handleStrengthChange_plain
        handleDenoise_fetched_plain handleDenoise_json_plain handleDenoise_blob_plain)

lemma step_strength:
  assumes "step P w w'"
  shows "strength (ui w') = strength (ui w) \<or> in_unit (strength (ui w'))"
  using assms
  by cases
     (simp_all add: ui_commit resume_fields slider_value_def
        handleFileChange_plain handleReset_plain handleDownload_plain
        handleMethodChange_plain handleStrengthChange_plain handleDenoise_plain
        handleDenoise_fetched_plain handleDenoise_json_plain handleDenoise_blob_plain)

lemma step_method:
  assumes "step P w w'"
  shows "method (ui w') = method (ui w) \<or> method (ui w') \<in> JStr ` set method_options"
  using assms
  by cases
     (simp_all add: ui_commit resume_fields
        handleFileChange_plain handleReset_plain handleDownload_plain
        handleMethodChange_plain handleStrengthChange_plain handleDenoise_plain
        handleDenoise_fetched_plain handleDenoise_json_plain handleDenoise_blob_plain)

lemma example_stored:
  \<open>stored_setting browser [STORAGE_KEY \<mapsto> ''{"method":"median","strength":0.25}''] ''method''
     = Some (JStr ''median'')\<close>
  \<open>stored_setting browser [STORAGE_KEY \<mapsto> ''{"method":"median","strength":0.25}''] ''strength''
     = Some (JNum (Fin (1 / 4)))\<close>
  \<open>stored_setting browser [STORAGE_KEY \<mapsto> ''{"method":0,"strength":"high"}''] ''method''
     = Some (JNum (Fin 0))\<close>
  \<open>stored_setting browser [STORAGE_KEY \<mapsto> ''{"method":0,"strength":"high"}''] ''strength''
     = Some (JStr ''high'')\<close>
  by (simp_all add: stored_setting_def browser_fields example_parse_def)




section \<open>Denoise without a file\<close>

text \<open>
  Claim C8. A click on Denoise while no file is selected sets the status message to
  \<^verbatim>\<open>Please upload an image first.\<close> and does nothing else: the handler returns in its
  first segment, sends no request, and the page after the click is the page before it
  with that status message (the selected file, both preview URLs, the method, the
  strength, \<^verbatim>\<open>isProcessing\<close>, the storage and the requests are unchanged).
\<close>

theorem handleDenoise_without_file:
  assumes "selectedFile (ui w) = None"
  shows "handleDenoise P (ui w) = ([SetStatusMessage ''Please upload an image first.''], Returned)
       \<and> requests (fst (handleDenoise P (ui w))) = []
       \<and> resume P w (inflight w) [] (handleDenoise P (ui w))
           = w\<lparr>ui := (ui w)\<lparr>statusMessage := ''Please upload an image first.''\<rparr>\<rparr>"
  using assms
  by (simp add: handleDenoise_def resume_def commit_def render_effects_def)

theorem handleDenoise_without_file_witness:
  "resume browser (mount browser Map.empty) [] [] (handleDenoise browser (ui (mount browser Map.empty)))
     = (mount browser Map.empty)
         \<lparr>ui := init_state\<lparr>statusMessage := ''Please upload an image first.''\<rparr>\<rparr>"
proof -
  have u: "ui (mount browser Map.empty) = init_state"
    by (simp add: mount_fields loaded_method_def loaded_strength_def stored_setting_def
        init_state_def)
  then have "selectedFile (ui (mount browser Map.empty)) = None"
    by (simp add: init_state_def)
  from handleDenoise_without_file [OF this, of browser]
  have "resume browser (mount browser Map.empty) (inflight (mount browser Map.empty)) []
          (handleDenoise browser (ui (mount browser Map.empty)))
        = (mount browser Map.empty)
            \<lparr>ui := (ui (mount browser Map.empty))
                    \<lparr>statusMessage := ''Please upload an image first.''\<rparr>\<rparr>"
    by (rule conjunct2 [THEN conjunct2])
  then show ?thesis unfolding u mount_fields(2) .
qed

section \<open>Reset\<close>

text \<open>
  Claim C10. \<^verbatim>\<open>handleReset\<close> first revokes the object URLs that are not \<^verbatim>\<open>null\<close> (those
  and no others), then sets the selected file and both preview URLs to \<^verbatim>\<open>null\<close> and
  the status message to the empty string. The page after the reset differs from the
  page before it in these four state variables only: the method, the strength,
  \<^verbatim>\<open>isProcessing\<close> and the stored settings are unchanged.
\<close>

theorem handleReset_effect:
  "(\<exists>revokes.
      handleReset (ui w) =
        revokes @ [SetSelectedFile None, SetOriginalPreviewUrl None,
                   SetDenoisedPreviewUrl None, SetStatusMessage '''']
      \<and> set revokes =
          RevokeObjectURL ` (set_option (originalPreviewUrl (ui w))
                             \<union> set_option (denoisedPreviewUrl (ui w))))
   \<and> commit P w (handleReset (ui w))
       = w\<lparr>ui := (ui w)\<lparr>selectedFile := None, originalPreviewUrl := None,
                         denoisedPreviewUrl := None, statusMessage := ''''\<rparr>\<rparr>"
proof -
  let ?revokes = "revoke_if (originalPreviewUrl (ui w)) @ revoke_if (denoisedPreviewUrl (ui w))"
  have "set ?revokes =
          RevokeObjectURL ` (set_option (originalPreviewUrl (ui w))
                             \<union> set_option (denoisedPreviewUrl (ui w)))"
    by (cases "originalPreviewUrl (ui w)"; cases "denoisedPreviewUrl (ui w)") auto
  then have first: "\<exists>revokes.
      handleReset (ui w) =
        revokes @ [SetSelectedFile None, SetOriginalPreviewUrl None,
                   SetDenoisedPreviewUrl None, SetStatusMessage '''']
      \<and> set revokes =
          RevokeObjectURL ` (set_option (originalPreviewUrl (ui w))
                             \<union> set_option (denoisedPreviewUrl (ui w)))"
    by (intro exI [of _ ?revokes]) (simp add: handleReset_def)
  have "foldl perform w (handleReset (ui w))
          = w\<lparr>ui := (ui w)\<lparr>selectedFile := None, originalPreviewUrl := None,
                         denoisedPreviewUrl := None, statusMessage := ''''\<rparr>\<rparr>"
    by (cases "originalPreviewUrl (ui w)"; cases "denoisedPreviewUrl (ui w)")
       (simp_all add: handleReset_def)
  then have "commit P w (handleReset (ui w))
       = w\<lparr>ui := (ui w)\<lparr>selectedFile := None, originalPreviewUrl := None,
                         denoisedPreviewUrl := None, statusMessage := ''''\<rparr>\<rparr>"
    by (simp add: commit_def render_effects_def)
  with first show ?thesis by blast
qed

theorem handleReset_effect_witness:
  "RevokeObjectURL (BlobURL ''a'') \<in> set (handleReset (ui example_loaded))
   \<and> RevokeObjectURL (BlobURL ''b'') \<in> set (handleReset (ui example_loaded))
   \<and> selectedFile (ui (commit browser example_loaded (handleReset (ui example_loaded)))) = None
   \<and> method (ui (commit browser example_loaded (handleReset (ui example_loaded)))) = JStr ''median''
   \<and> strength (ui (commit browser example_loaded (handleReset (ui example_loaded)))) = Fin (1 / 4)
   \<and> storage (commit browser example_loaded (handleReset (ui example_loaded)))
       = storage example_loaded"
proof -
  from handleReset_effect [of example_loaded browser]
  obtain revokes where
    r: "handleReset (ui example_loaded) =
          revokes @ [SetSelectedFile None, SetOriginalPreviewUrl None,
                     SetDenoisedPreviewUrl None, SetStatusMessage '''']"
       "set revokes =
          RevokeObjectURL ` (set_option (originalPreviewUrl (ui example_loaded))
                             \<union> set_option (denoisedPreviewUrl (ui example_loaded)))"
    and c: "commit browser example_loaded (handleReset (ui example_loaded))
       = example_loaded\<lparr>ui := (ui example_loaded)\<lparr>selectedFile := None,
            originalPreviewUrl := None, denoisedPreviewUrl := None, statusMessage := ''''\<rparr>\<rparr>"
    by blast
  have "RevokeObjectURL (BlobURL ''a'') \<in> set revokes"
    and "RevokeObjectURL (BlobURL ''b'') \<in> set revokes"
    unfolding r(2) by (simp_all add: example_loaded_def)
  then have "RevokeObjectURL (BlobURL ''a'') \<in> set (handleReset (ui example_loaded))"
    and "RevokeObjectURL (BlobURL ''b'') \<in> set (handleReset (ui example_loaded))"
    unfolding r(1) by simp_all
  then show ?thesis
    unfolding c by (simp add: example_loaded_def)
qed

section \<open>One request at a time\<close>



section \<open>The request body\<close>

text \<open>
  Claim C6. With a file selected, the first segment of \<^verbatim>\<open>handleDenoise\<close> sends at most
  one request, a \<^verbatim>\<open>POST\<close> to the service whose form body is exactly the three fields
  \<^verbatim>\<open>file\<close> (the selected file), \<^verbatim>\<open>method\<close> (the method as a string) and \<^verbatim>\<open>strength\<close>
  (the current strength converted to a string), in this order. Whenever the method is a
  string, \<^verbatim>\<open>cdae\<close> included, exactly that request is sent, with the strength field in
  it. No request is sent only when the method is a value whose conversion to a string
  raises.
\<close>

theorem denoise_request_fields:
  assumes "selectedFile s = Some fl"
  shows "requests (fst (handleDenoise P s)) =
           (case ToString P (method s) of
              Inl e \<Rightarrow> []
            | Inr m \<Rightarrow>
                [\<lparr>req_url = API_URL, req_method = ''POST'',
                  req_body = [(''file'', FileField fl), (''method'', TextField m),
                              (''strength'', TextField (Number_toString P (strength s)))]\<rparr>])
       \<and> (\<forall>m. method s = JStr m \<longrightarrow>
             requests (fst (handleDenoise P s)) =
               [\<lparr>req_url = API_URL, req_method = ''POST'',
                 req_body = [(''file'', FileField fl), (''method'', TextField m),
                             (''strength'', TextField (Number_toString P (strength s)))]\<rparr>])"
proof -
  have first: "requests (fst (handleDenoise P s)) =
           (case ToString P (method s) of
              Inl e \<Rightarrow> []
            | Inr m \<Rightarrow>
                [\<lparr>req_url = API_URL, req_method = ''POST'',
                  req_body = [(''file'', FileField fl), (''method'', TextField m),
                              (''strength'', TextField (Number_toString P (strength s)))]\<rparr>])"
    using assms
    by (cases "ToString P (method s)"; cases "denoisedPreviewUrl s")
       (simp_all add: handleDenoise_cases plain_simps)
  then show ?thesis by simp
qed

theorem denoise_request_fields_witness:
  "requests (fst (handleDenoise browser (ui (example_selected Map.empty)))) =
     [\<lparr>req_url = API_URL, req_method = ''POST'',
       req_body = [(''file'', FileField (File ''photo.png'')), (''method'', TextField ''cdae''),
                   (''strength'', TextField ''0.5'')]\<rparr>]"
proof -
  have "method (ui (example_selected Map.empty)) = JStr ''cdae''"
    by (simp add: example_selected_fields example_loaded_values)
  with denoise_request_fields [OF example_selected_fields(1), of browser Map.empty]
  show ?thesis
    by (simp add: example_selected_fields example_loaded_values browser_fields
        example_number_def)
qed

section \<open>The message shown for an error response\<close>

text \<open>
  Claim C1, as amended. For a response whose status is not in 200 to 299 and whose JSON
  body has a non-empty string in its \<^verbatim>\<open>error\<close> field, the handler reads the body, and
  the status message it sets is \<^verbatim>\<open>Error: \<close> followed by that string, with nothing
  else before and nothing after it.
\<close>

theorem error_shown_with_prefix:
  assumes "\<not> response_ok status"
    and "get_prop data ''error'' = Inr (Some (JStr m))"
    and "m \<noteq> []"
  shows "handleDenoise_fetched P (FetchResponse status) = ([], Awaiting (AwaitJson status))
       \<and> statusMessage (apply_actions (fst (handleDenoise_json P status (Some data))) s)
           = ''Error: '' @ m"
proof -
  from assms(2) obtain ps where "data = JObj ps" by (cases data) simp_all
  with assms(2,3) have "errorMsg status (Some data) = JStr m"
    by (simp add: errorMsg_def)
  then have "statusMessage (apply_actions (fst (handleDenoise_json P status (Some data))) s)
           = ''Error: '' @ m"
    by (simp add: handleDenoise_json_def new_Error_def in_try_cases plain_simps)
  moreover from assms(1)
  have "handleDenoise_fetched P (FetchResponse status) = ([], Awaiting (AwaitJson status))"
    by (simp add: handleDenoise_fetched_def in_try_cases)
  ultimately show ?thesis by simp
qed

theorem error_shown_with_prefix_witness:
  "statusMessage
     (apply_actions
        (fst (handleDenoise_json browser 400
                (Some (JObj [(''error'', JStr ''Unsupported method'')]))))
        init_state)
   = ''Error: Unsupported method''"
  using error_shown_with_prefix
    [of 400 "JObj [(''error'', JStr ''Unsupported method'')]" "''Unsupported method''"
        browser init_state]
  by (simp add: response_ok_def)

text \<open>
  The claim as stated fails: for the status 400 and the body
  \<^verbatim>\<open>{"error": "Unsupported method"}\<close> the status message is not that string (it is the
  string of the example above).
\<close>

theorem error_not_verbatim:
  "\<not> response_ok 400
   \<and> statusMessage
       (apply_actions
          (fst (handleDenoise_json browser 400
                  (Some (JObj [(''error'', JStr ''Unsupported method'')]))))
          init_state)
     \<noteq> ''Unsupported method''"
  by (simp add: response_ok_def handleDenoise_json_def errorMsg_def new_Error_def in_try_def
      apply_actions_def)

text \<open>
  Claim C7. For a response that is not ok the handler reads the body as JSON and
  examines nothing else of it. When the body has been read (or could not be), it logs
  the error, sets the status message to \<^verbatim>\<open>Error: \<close> followed by the message of
  \<^verbatim>\<open>new Error(errorMsg)\<close>, sets \<^verbatim>\<open>isProcessing\<close> to false and returns: no exception
  leaves it. \<^verbatim>\<open>errorMsg\<close> is the \<^verbatim>\<open>error\<close> field of the body when the body parsed and
  has a truthy \<^verbatim>\<open>error\<close> field, and \<^verbatim>\<open>Server error: \<close> followed by the status code in
  every other case; the message of an error made from a string is that string; and two
  bodies with the same \<^verbatim>\<open>error\<close> field are handled alike.
\<close>

theorem error_response_handled:
  "fst (handleDenoise_json P status body) =
     [ConsoleError (new_Error P (errorMsg status body)),
      SetStatusMessage (''Error: '' @ message P (new_Error P (errorMsg status body))),
      SetIsProcessing False]
   \<and> snd (handleDenoise_json P status body) = Returned
   \<and> (\<forall>data v. body = Some data \<and> get_prop data ''error'' = Inr (Some v) \<and> truthy v \<longrightarrow>
         errorMsg status body = v)
   \<and> ((\<nexists>data v. body = Some data \<and> get_prop data ''error'' = Inr (Some v) \<and> truthy v) \<longrightarrow>
         errorMsg status body = JStr (''Server error: '' @ show_nat status))
   \<and> (\<forall>m. message P (new_Error P (JStr m)) = m)
   \<and> (\<forall>d d'. get_prop d ''error'' = get_prop d' ''error'' \<longrightarrow>
         handleDenoise_json P status (Some d) = handleDenoise_json P status (Some d'))
   \<and> (\<not> response_ok status \<longrightarrow>
         handleDenoise_fetched P (FetchResponse status) = ([], Awaiting (AwaitJson status)))"
proof (intro conjI allI impI)
  show "handleDenoise_fetched P (FetchResponse status) = ([], Awaiting (AwaitJson status))"
    if "\<not> response_ok status"
    using that by (simp add: handleDenoise_fetched_def in_try_cases)
  show "fst (handleDenoise_json P status body) =
     [ConsoleError (new_Error P (errorMsg status body)),
      SetStatusMessage (''Error: '' @ message P (new_Error P (errorMsg status body))),
      SetIsProcessing False]"
    by (simp add: handleDenoise_json_def in_try_cases)
  show "snd (handleDenoise_json P status body) = Returned"
    by (simp add: handleDenoise_json_def in_try_cases)
  show "errorMsg status body = v"
    if "body = Some data \<and> get_prop data ''error'' = Inr (Some v) \<and> truthy v" for data v
    using that by (simp add: errorMsg_used)
  show "errorMsg status body = JStr (''Server error: '' @ show_nat status)"
    if none: "\<nexists>data v. body = Some data \<and> get_prop data ''error'' = Inr (Some v) \<and> truthy v"
  proof (cases body)
    case None
    then show ?thesis by (simp add: errorMsg_fallback(1))
  next
    case (Some data)
    with none have "\<nexists>v. get_prop data ''error'' = Inr (Some v) \<and> truthy v" by blast
    then have "errorMsg status (Some data) = JStr (''Server error: '' @ show_nat status)"
      by (rule errorMsg_fallback(2))
    with Some show ?thesis by (simp only:)
  qed
  show "message P (new_Error P (JStr m)) = m" for m
    by (simp add: new_Error_def)
  show "handleDenoise_json P status (Some d) = handleDenoise_json P status (Some d')"
    if "get_prop d ''error'' = get_prop d' ''error''" for d d'
    using errorMsg_same [OF that, of status] by (simp add: handleDenoise_json_def)
qed

theorem error_response_handled_witness:
  "statusMessage (apply_actions (fst (handleDenoise_json browser 503 None)) init_state)
     = ''Error: Server error: 503''
   \<and> snd (handleDenoise_json browser 503 None) = Returned
   \<and> handleDenoise_fetched browser (FetchResponse 503) = ([], Awaiting (AwaitJson 503))
   \<and> errorMsg 400 (Some (JObj [(''error'', JStr ''Unsupported method'')]))
       = JStr ''Unsupported method''"
proof -
  note inst = error_response_handled [of browser 503 None]
  from inst have calls: "fst (handleDenoise_json browser 503 None) =
     [ConsoleError (new_Error browser (errorMsg 503 None)),
      SetStatusMessage (''Error: '' @ message browser (new_Error browser (errorMsg 503 None))),
      SetIsProcessing False]"
    by (rule conjunct1)
  from inst have returned: "snd (handleDenoise_json browser 503 None) = Returned"
    by (rule conjunct2 [THEN conjunct1])
  from inst have "errorMsg 503 None = JStr (''Server error: '' @ show_nat 503)"
    by simp
  moreover have "show_nat 503 = ''503''" by code_simp
  ultimately have "errorMsg 503 None = JStr ''Server error: 503''" by simp
  then have shown: "message browser (new_Error browser (errorMsg 503 None)) = ''Server error: 503''"
    by (simp add: new_Error_def)
  have "\<not> response_ok 503" by (simp add: response_ok_def)
  with inst
  have suspended: "handleDenoise_fetched browser (FetchResponse 503) = ([], Awaiting (AwaitJson 503))"
    by blast
  let ?body = "Some (JObj [(''error'', JStr ''Unsupported method'')])"
  have "?body = Some (JObj [(''error'', JStr ''Unsupported method'')])
          \<and> get_prop (JObj [(''error'', JStr ''Unsupported method'')]) ''error''
              = Inr (Some (JStr ''Unsupported method''))
          \<and> truthy (JStr ''Unsupported method'')"
    by simp
  with error_response_handled [of browser 400 ?body]
  have "errorMsg 400 ?body = JStr ''Unsupported method''"
    by blast
  with calls returned shown suspended show ?thesis
    by (simp add: plain_simps)
qed

section \<open>The stored settings\<close>

text \<open>
  Claim C5. In every reachable page the storage holds, under the key
  \<^verbatim>\<open>image-denoiser-settings-v1\<close>, the JSON serialization of the object with exactly the
  two fields \<^verbatim>\<open>method\<close> and \<^verbatim>\<open>strength\<close> and the current values, and its initial content
  under every other key. A step that changes the method or the strength writes that
  serialization of the new values under that key and nothing else; a step that changes
  neither writes nothing.
\<close>

theorem settings_saved:
  assumes "reachable P st w"
  shows "storage w STORAGE_KEY =
           Some (JSON_stringify P
                   (JObj [(''method'', method (ui w)), (''strength'', JNum (strength (ui w)))]))
       \<and> (\<forall>k. k \<noteq> STORAGE_KEY \<longrightarrow> storage w k = st k)
       \<and> (\<forall>w'. step P w w' \<longrightarrow>
             storage w' =
               (if method (ui w') \<noteq> method (ui w) \<or> strength (ui w') \<noteq> strength (ui w)
                then (storage w)(STORAGE_KEY \<mapsto>
                       JSON_stringify P
                         (JObj [(''method'', method (ui w')),
                                (''strength'', JNum (strength (ui w')))]))
                else storage w))"
proof -
  have now: "storage w = st(STORAGE_KEY \<mapsto> JSON_stringify P (settings (ui w)))"
    using reachable_persisted [OF assms] by (simp add: persisted_def)
  have after: "storage w' = st(STORAGE_KEY \<mapsto> JSON_stringify P (settings (ui w')))"
    if "step P w w'" for w'
    using persisted_step [OF reachable_persisted [OF assms] that] by (simp add: persisted_def)
  have "storage w' =
          (if method (ui w') \<noteq> method (ui w) \<or> strength (ui w') \<noteq> strength (ui w)
           then (storage w)(STORAGE_KEY \<mapsto> JSON_stringify P (settings (ui w')))
           else storage w)"
    if "step P w w'" for w'
  proof (cases "method (ui w') \<noteq> method (ui w) \<or> strength (ui w') \<noteq> strength (ui w)")
    case True
    then show ?thesis using after [OF that] now by simp
  next
    case False
    then have "settings (ui w') = settings (ui w)" by (simp add: settings_def)
    with False show ?thesis using after [OF that] now by simp
  qed
  with now show ?thesis by (simp add: settings_def)
qed

theorem settings_saved_witness:
  \<open>storage (commit browser (mount browser [''theme'' \<mapsto> ''dark''])
              (handleMethodChange ''median'')) STORAGE_KEY
     = Some ''{"method":"median","strength":0.5}''
   \<and> storage (mount browser [''theme'' \<mapsto> ''dark'']) STORAGE_KEY
       = Some ''{"method":"cdae","strength":0.5}''
   \<and> storage (mount browser [''theme'' \<mapsto> ''dark'']) ''theme'' = Some ''dark''\<close>
proof -
  let ?st = "[''theme'' \<mapsto> ''dark'']"
  let ?w = "mount browser ?st"
  let ?w' = "commit browser ?w (handleMethodChange ''median'')"
  have r: "reachable browser ?st ?w" by (rule reachable.mounted)
  have s: "step browser ?w ?w'"
    by (rule step.method_change) (simp add: method_options_def)
  have none: "stored_setting browser ?st k = None" for k
    by (simp add: stored_setting_def STORAGE_KEY_def)
  have u: "method (ui ?w) = JStr ''cdae''" "strength (ui ?w) = Fin (1 / 2)"
    "method (ui ?w') = JStr ''median''" "strength (ui ?w') = Fin (1 / 2)"
    by (simp_all add: ui_commit mount_fields handleMethodChange_plain loaded_method_def
        loaded_strength_def none init_state_def)
  note inst = settings_saved [OF r]
  from inst have "storage ?w STORAGE_KEY =
           Some (JSON_stringify browser
                   (JObj [(''method'', method (ui ?w)), (''strength'', JNum (strength (ui ?w)))]))"
    by (rule conjunct1)
  then have first: \<open>storage ?w STORAGE_KEY = Some ''{"method":"cdae","strength":0.5}''\<close>
    by (simp add: u browser_fields example_stringify_def example_number_def)
  from inst have "''theme'' \<noteq> STORAGE_KEY \<longrightarrow> storage ?w ''theme'' = ?st ''theme''"
    by blast
  then have other: "storage ?w ''theme'' = Some ''dark''"
    by (simp add: STORAGE_KEY_def)
  from inst s have "storage ?w' =
               (if method (ui ?w') \<noteq> method (ui ?w) \<or> strength (ui ?w') \<noteq> strength (ui ?w)
                then (storage ?w)(STORAGE_KEY \<mapsto>
                       JSON_stringify browser
                         (JObj [(''method'', method (ui ?w')),
                                (''strength'', JNum (strength (ui ?w')))]))
                else storage ?w)"
    by blast
  then have \<open>storage ?w' STORAGE_KEY = Some ''{"method":"median","strength":0.5}''\<close>
    by (simp add: u browser_fields example_stringify_def example_number_def)
  with first other show ?thesis by simp
qed

section \<open>The range of the strength\<close>

text \<open>
  Claim C3, as amended. The slider's handler sets the strength to the parsed value of
  the slider, which is in [0,1] whenever the slider's value is; the load effect sets it
  to the stored strength whenever that is a number, without a check. So when the stored
  strength is absent, not a number, or a number in [0,1], the strength is in [0,1] in
  every reachable page, and the strength field of every request sent is the string form
  of a number in [0,1].
\<close>

theorem strength_in_unit_interval:
  assumes "reachable P st w"
    and "\<forall>n. stored_setting P st ''strength'' = Some (JNum n) \<longrightarrow> in_unit n"
  shows "in_unit (strength (ui w))
       \<and> (\<forall>r \<in> set (sent w). \<exists>n. in_unit n
             \<and> map_of (req_body r) ''strength'' = Some (TextField (Number_toString P n)))
       \<and> (\<forall>v. slider_value P v \<longrightarrow>
             in_unit (strength (apply_actions (handleStrengthChange P v) (ui w))))
       \<and> strength (ui (mount P st)) = loaded_strength P st (Fin (1 / 2))"
proof -
  have "in_unit (strength (ui w))
       \<and> (\<forall>r \<in> set (sent w). \<exists>n. in_unit n
             \<and> map_of (req_body r) ''strength'' = Some (TextField (Number_toString P n)))"
    using assms(1)
  proof (induction rule: reachable.induct)
    case mounted
    have "in_unit (loaded_strength P st (Fin (1 / 2)))"
      using assms(2)
      by (cases "stored_setting P st ''strength''")
         (auto simp: loaded_strength_def split: json.splits)
    then show ?case by (simp add: mount_fields)
  next
    case (after_step w w')
    from after_step.hyps(2) after_step.IH have "in_unit (strength (ui w'))"
      using step_strength [of P w w'] by auto
    moreover have "\<exists>n. in_unit n
        \<and> map_of (req_body r) ''strength'' = Some (TextField (Number_toString P n))"
      if "r \<in> set (sent w')" for r
    proof -
      from step_sent [OF after_step.hyps(2) that]
      show ?thesis
      proof
        assume "r \<in> set (sent w)"
        with after_step.IH show ?thesis by blast
      next
        assume "r \<in> set (requests (fst (handleDenoise P (ui w))))"
        from handleDenoise_request [OF this]
        have "map_of (req_body r) ''strength''
                = Some (TextField (Number_toString P (strength (ui w))))"
          by auto
        with after_step.IH show ?thesis by blast
      qed
    qed
    ultimately show ?case by blast
  qed
  then show ?thesis
    by (simp add: handleStrengthChange_plain slider_value_def mount_fields)
qed

theorem strength_in_unit_interval_witness:
  \<open>reachable browser [STORAGE_KEY \<mapsto> ''{"method":"median","strength":0.25}'']
     (example_requested [STORAGE_KEY \<mapsto> ''{"method":"median","strength":0.25}''])
   \<and> in_unit (strength
        (ui (example_requested [STORAGE_KEY \<mapsto> ''{"method":"median","strength":0.25}''])))
   \<and> sent (example_requested [STORAGE_KEY \<mapsto> ''{"method":"median","strength":0.25}'']) =
       [\<lparr>req_url = API_URL, req_method = ''POST'',
         req_body = [(''file'', FileField (File ''photo.png'')),
                     (''method'', TextField ''median''),
                     (''strength'', TextField ''0.25'')]\<rparr>]\<close>
proof -
  let ?st = \<open>[STORAGE_KEY \<mapsto> ''{"method":"median","strength":0.25}'']\<close>
  have r: "reachable browser ?st (example_requested ?st)"
    by (rule example_requested_reachable)
  have ok: "\<forall>n. stored_setting browser ?st ''strength'' = Some (JNum n) \<longrightarrow> in_unit n"
    by (simp add: example_stored)
  from strength_in_unit_interval [OF r ok]
  have "in_unit (strength (ui (example_requested ?st)))"
    by (rule conjunct1)
  with r show ?thesis
    using example_requested_fields(2) [of ?st "''median''"]
    by (simp add: example_loaded_values example_number_def)
qed

text \<open>
  The claim as stated fails: with \<^verbatim>\<open>{"method":"cdae","strength":5}\<close> in the storage, the
  page that has mounted, got a file and a click on Denoise has the strength 5, and the
  strength field of the request it sent is \<^verbatim>\<open>5\<close>.
\<close>

theorem strength_outside_unit_interval:
  \<open>reachable browser [STORAGE_KEY \<mapsto> ''{"method":"cdae","strength":5}'']
     (example_requested [STORAGE_KEY \<mapsto> ''{"method":"cdae","strength":5}''])
   \<and> strength (ui (example_requested [STORAGE_KEY \<mapsto> ''{"method":"cdae","strength":5}'']))
       = Fin 5
   \<and> \<not> in_unit (strength
          (ui (example_requested [STORAGE_KEY \<mapsto> ''{"method":"cdae","strength":5}''])))
   \<and> sent (example_requested [STORAGE_KEY \<mapsto> ''{"method":"cdae","strength":5}'']) =
       [\<lparr>req_url = API_URL, req_method = ''POST'',
         req_body = [(''file'', FileField (File ''photo.png'')),
                     (''method'', TextField ''cdae''),
                     (''strength'', TextField ''5'')]\<rparr>]\<close>
  using example_requested_reachable [of \<open>[STORAGE_KEY \<mapsto> ''{"method":"cdae","strength":5}'']\<close>]
    example_requested_fields(2,4)
      [of \<open>[STORAGE_KEY \<mapsto> ''{"method":"cdae","strength":5}'']\<close> "''cdae''"]
  by (simp add: example_loaded_values example_number_def)

section \<open>The method sent\<close>

text \<open>
  Claim C4, as amended. The handler of the \<^verbatim>\<open>select\<close> sets the method to the chosen
  option, one of \<^verbatim>\<open>cdae\<close>, \<^verbatim>\<open>mean\<close>, \<^verbatim>\<open>median\<close>, \<^verbatim>\<open>wavelet\<close>; the load effect sets it to
  the stored method whenever that is truthy, without a check. So when the stored method
  is absent, falsy, or one of the four identifiers, the method is one of the four in
  every reachable page, and so is the method field of every request sent.
\<close>

theorem method_recognized:
  assumes "reachable P st w"
    and "\<forall>v. stored_setting P st ''method'' = Some v \<and> truthy v \<longrightarrow>
           v \<in> JStr ` set method_options"
  shows "method (ui w) \<in> JStr ` set method_options
       \<and> (\<forall>r \<in> set (sent w). \<exists>m \<in> set method_options.
             map_of (req_body r) ''method'' = Some (TextField m))
       \<and> (\<forall>v \<in> set method_options.
             method (apply_actions (handleMethodChange v) (ui w)) = JStr v)
       \<and> method (ui (mount P st)) = loaded_method P st (JStr ''cdae'')"
proof -
  have "method (ui w) \<in> JStr ` set method_options
       \<and> (\<forall>r \<in> set (sent w). \<exists>m \<in> set method_options.
             map_of (req_body r) ''method'' = Some (TextField m))"
    using assms(1)
  proof (induction rule: reachable.induct)
    case mounted
    have "loaded_method P st (JStr ''cdae'') \<in> JStr ` set method_options"
      using assms(2)
      by (cases "stored_setting P st ''method''")
         (auto simp: loaded_method_def method_options_def)
    then show ?case by (simp add: mount_fields)
  next
    case (after_step w w')
    from after_step.hyps(2) after_step.IH
    have "method (ui w') \<in> JStr ` set method_options"
      using step_method [of P w w'] by auto
    moreover have "\<exists>m \<in> set method_options.
        map_of (req_body r) ''method'' = Some (TextField m)"
      if "r \<in> set (sent w')" for r
    proof -
      from step_sent [OF after_step.hyps(2) that]
      show ?thesis
      proof
        assume "r \<in> set (sent w)"
        with after_step.IH show ?thesis by blast
      next
        assume "r \<in> set (requests (fst (handleDenoise P (ui w))))"
        from handleDenoise_request [OF this] obtain m where
          m: "ToString P (method (ui w)) = Inr m"
             "map_of (req_body r) ''method'' = Some (TextField m)"
          by auto
        from after_step.IH obtain v where "v \<in> set method_options" "method (ui w) = JStr v"
          by auto
        with m show ?thesis by auto
      qed
    qed
    ultimately show ?case by blast
  qed
  then show ?thesis
    by (simp add: handleMethodChange_plain mount_fields)
qed

theorem method_recognized_witness:
  \<open>reachable browser [STORAGE_KEY \<mapsto> ''{"method":"median","strength":0.25}'']
     (example_requested [STORAGE_KEY \<mapsto> ''{"method":"median","strength":0.25}''])
   \<and> method (ui (example_requested [STORAGE_KEY \<mapsto> ''{"method":"median","strength":0.25}'']))
       \<in> JStr ` set method_options
   \<and> method (ui (example_requested [STORAGE_KEY \<mapsto> ''{"method":"median","strength":0.25}'']))
       = JStr ''median''\<close>
proof -
  let ?st = \<open>[STORAGE_KEY \<mapsto> ''{"method":"median","strength":0.25}'']\<close>
  have r: "reachable browser ?st (example_requested ?st)"
    by (rule example_requested_reachable)
  have ok: "\<forall>v. stored_setting browser ?st ''method'' = Some v \<and> truthy v \<longrightarrow>
              v \<in> JStr ` set method_options"
    by (simp add: example_stored method_options_def)
  from method_recognized [OF r ok]
  have "method (ui (example_requested ?st)) \<in> JStr ` set method_options"
    by (rule conjunct1)
  with r show ?thesis
    using example_requested_fields(3) [of ?st "''median''"]
    by (simp add: example_loaded_values)
qed

text \<open>
  The claim as stated fails: with \<^verbatim>\<open>{"method":"bogus","strength":0.5}\<close> in the storage,
  the page that has mounted, got a file and a click on Denoise has the method
  \<^verbatim>\<open>bogus\<close>, and that is the method field of the request it sent.
\<close>

theorem method_not_recognized:
  \<open>reachable browser [STORAGE_KEY \<mapsto> ''{"method":"bogus","strength":0.5}'']
     (example_requested [STORAGE_KEY \<mapsto> ''{"method":"bogus","strength":0.5}''])
   \<and> method (ui (example_requested [STORAGE_KEY \<mapsto> ''{"method":"bogus","strength":0.5}'']))
       = JStr ''bogus''
   \<and> JStr ''bogus'' \<notin> JStr ` set method_options
   \<and> sent (example_requested [STORAGE_KEY \<mapsto> ''{"method":"bogus","strength":0.5}'']) =
       [\<lparr>req_url = API_URL, req_method = ''POST'',
         req_body = [(''file'', FileField (File ''photo.png'')),
                     (''method'', TextField ''bogus''),
                     (''strength'', TextField ''0.5'')]\<rparr>]\<close>
  using example_requested_reachable
      [of \<open>[STORAGE_KEY \<mapsto> ''{"method":"bogus","strength":0.5}'']\<close>]
    example_requested_fields(2,3)
      [of \<open>[STORAGE_KEY \<mapsto> ''{"method":"bogus","strength":0.5}'']\<close> "''bogus''"]
  by (simp add: example_loaded_values example_number_def method_options_def)

section \<open>Loading the settings\<close>

text \<open>
  Claim C9, as amended. Whatever the storage holds, the load effect ends normally: an
  exception of its body is caught and logged. After mounting, the method is the stored
  method when that is truthy and the default \<^verbatim>\<open>cdae\<close> otherwise, and the strength is
  the stored strength when that is a number and the default 0.5 otherwise, each
  independently of the other: the default method is kept whenever the stored method is
  falsy, and the default strength whenever the stored strength is not a number. With
  nothing stored, an empty text or a text that does not parse, the state is the initial
  state.
\<close>

theorem loadSettings_safe:
  "snd (loadSettings P st) = Returned
   \<and> ui (mount P st) =
       init_state\<lparr>method := loaded_method P st (JStr ''cdae''),
                  strength := loaded_strength P st (Fin (1 / 2))\<rparr>
   \<and> ((\<nexists>v. stored_setting P st ''method'' = Some v \<and> truthy v) \<longrightarrow>
         method (ui (mount P st)) = JStr ''cdae'')
   \<and> ((\<nexists>n. stored_setting P st ''strength'' = Some (JNum n)) \<longrightarrow>
         strength (ui (mount P st)) = Fin (1 / 2))
   \<and> (st STORAGE_KEY = None
        \<or> (\<exists>raw. st STORAGE_KEY = Some raw \<and> (raw = [] \<or> JSON_parse P raw = None)) \<longrightarrow>
         ui (mount P st) = init_state)"
proof (intro conjI impI)
  show "snd (loadSettings P st) = Returned"
    using loadSettings_effect [of P st init_state] by simp
  show "ui (mount P st) =
       init_state\<lparr>method := loaded_method P st (JStr ''cdae''),
                  strength := loaded_strength P st (Fin (1 / 2))\<rparr>"
    by (rule mount_fields)
  show "method (ui (mount P st)) = JStr ''cdae''"
    if "\<nexists>v. stored_setting P st ''method'' = Some v \<and> truthy v"
    using that
    by (cases "stored_setting P st ''method''")
       (auto simp: mount_fields loaded_method_def)
  show "strength (ui (mount P st)) = Fin (1 / 2)"
    if "\<nexists>n. stored_setting P st ''strength'' = Some (JNum n)"
    using that
    by (cases "stored_setting P st ''strength''")
       (auto simp: mount_fields loaded_strength_def split: json.splits)
  show "ui (mount P st) = init_state"
    if "st STORAGE_KEY = None
        \<or> (\<exists>raw. st STORAGE_KEY = Some raw \<and> (raw = [] \<or> JSON_parse P raw = None))"
  proof -
    from that have "stored_setting P st k = None" for k
      by (auto simp: stored_setting_def)
    then show ?thesis
      by (simp add: mount_fields loaded_method_def loaded_strength_def init_state_def)
  qed
qed

theorem loadSettings_safe_witness:
  \<open>snd (loadSettings browser [STORAGE_KEY \<mapsto> ''{"method":0,"strength":"high"}'']) = Returned
   \<and> method (ui (mount browser [STORAGE_KEY \<mapsto> ''{"method":0,"strength":"high"}'']))
       = JStr ''cdae''
   \<and> strength (ui (mount browser [STORAGE_KEY \<mapsto> ''{"method":0,"strength":"high"}'']))
       = Fin (1 / 2)
   \<and> ui (mount browser Map.empty) = init_state
   \<and> ui (mount browser [STORAGE_KEY \<mapsto> ''{"method":''])  = init_state
   \<and> method (ui (mount browser [STORAGE_KEY \<mapsto> ''{"method":"","strength":1}'']))
       = JStr ''cdae''
   \<and> strength (ui (mount browser [STORAGE_KEY \<mapsto> ''{"method":"","strength":1}''])) = Fin 1
   \<and> strength (ui (mount browser [STORAGE_KEY \<mapsto> ''{"method":"median","strength":0.25}'']))
       = Fin (1 / 4)\<close>
proof -
  let ?st = \<open>[STORAGE_KEY \<mapsto> ''{"method":0,"strength":"high"}'']\<close>
  let ?bad = \<open>[STORAGE_KEY \<mapsto> ''{"method":'']\<close>
  let ?mixed = \<open>[STORAGE_KEY \<mapsto> ''{"method":"","strength":1}'']\<close>
  let ?good = \<open>[STORAGE_KEY \<mapsto> ''{"method":"median","strength":0.25}'']\<close>
  note inst = loadSettings_safe [of browser ?st]
  have m: "\<nexists>v. stored_setting browser ?st ''method'' = Some v \<and> truthy v"
    by (simp add: example_stored)
  have s: "\<nexists>n. stored_setting browser ?st ''strength'' = Some (JNum n)"
    by (simp add: example_stored)
  from inst have a: "snd (loadSettings browser ?st) = Returned"
    by (rule conjunct1)
  from inst m have b: "method (ui (mount browser ?st)) = JStr ''cdae''"
    by blast
  from inst s have c: "strength (ui (mount browser ?st)) = Fin (1 / 2)"
    by blast
  have "(Map.empty :: string \<rightharpoonup> string) STORAGE_KEY = None"
    by simp
  with loadSettings_safe [of browser Map.empty]
  have d: "ui (mount browser Map.empty) = init_state"
    by blast
  have "?bad STORAGE_KEY = Some ''{\"method\":''
      \<and> JSON_parse browser ''{\"method\":'' = None"
    by (simp add: browser_fields example_parse_def)
  with loadSettings_safe [of browser ?bad]
  have e: "ui (mount browser ?bad) = init_state"
    by blast
  have stored: "stored_setting browser ?mixed ''method'' = Some (JStr [])"
    "stored_setting browser ?mixed ''strength'' = Some (JNum (Fin 1))"
    by (simp_all add: stored_setting_def browser_fields example_parse_def)
  then have "\<nexists>v. stored_setting browser ?mixed ''method'' = Some v \<and> truthy v"
    by simp
  with loadSettings_safe [of browser ?mixed]
  have f: "method (ui (mount browser ?mixed)) = JStr ''cdae''"
    by blast
  from loadSettings_safe [of browser ?mixed]
  have "ui (mount browser ?mixed) =
       init_state\<lparr>method := loaded_method browser ?mixed (JStr ''cdae''),
                  strength := loaded_strength browser ?mixed (Fin (1 / 2))\<rparr>"
    by (rule conjunct2 [THEN conjunct1])
  then have g: "strength (ui (mount browser ?mixed)) = Fin 1"
    by (simp add: loaded_strength_def stored)
  from loadSettings_safe [of browser ?good]
  have "ui (mount browser ?good) =
       init_state\<lparr>method := loaded_method browser ?good (JStr ''cdae''),
                  strength := loaded_strength browser ?good (Fin (1 / 2))\<rparr>"
    by (rule conjunct2 [THEN conjunct1])
  then have h: "strength (ui (mount browser ?good)) = Fin (1 / 4)"
    by (simp add: example_loaded_values)
  from a b c d e f g h show ?thesis
    by (intro conjI)
qed

text \<open>
  The claim as stated fails: it keeps both defaults whenever the stored method is falsy
  or the stored strength is not a number. With \<^verbatim>\<open>{"method":"","strength":1}\<close> in the
  storage the stored method is the empty string, which is falsy, and the strength after
  mounting is 1, not the default 0.5.
\<close>

theorem defaults_not_both_kept:
  \<open>stored_setting browser [STORAGE_KEY \<mapsto> ''{"method":"","strength":1}''] ''method''
     = Some (JStr [])
   \<and> \<not> truthy (JStr [])
   \<and> strength (ui (mount browser [STORAGE_KEY \<mapsto> ''{"method":"","strength":1}''])) = Fin 1
   \<and> strength (ui (mount browser [STORAGE_KEY \<mapsto> ''{"method":"","strength":1}'']))
       \<noteq> Fin (1 / 2)\<close>
  by (simp add: stored_setting_def mount_def commit_def loadSettings_def loadSettings_body_def
      browser_def example_parse_def saveSettings_def render_effects_def init_state_def)

end
